theory Spec2Isabelle
  imports Complex_Main
begin

section \<open>Strings and numbers of the host language\<close>

text \<open>
  Strings are lists of code units, here those of the range U+0000 to U+00FF. The white
  space that \<^verbatim>\<open>parseInt\<close> and \<^verbatim>\<open>trim\<close> skip is, in this range, TAB, LF, VT, FF,
  CR, SPACE and the no-break space U+00A0. Numbers that the modelled code computes with
  are integers (epoch milliseconds, day counts), on which double arithmetic is exact
  below \<open>2^53\<close>; \<open>None\<close> stands for \<^verbatim>\<open>NaN\<close>.
\<close>

definition is_space :: "char \<Rightarrow> bool" where
  "is_space c = (of_char c \<in> set [9, 10, 11, 12, 13, 32, 160 :: nat])"

definition is_digit :: "char \<Rightarrow> bool" where
  "is_digit c = (48 \<le> (of_char c :: nat) \<and> (of_char c :: nat) \<le> 57)"

definition digit_val :: "char \<Rightarrow> nat" where
  "digit_val c = of_char c - 48"

definition digit_char :: "nat \<Rightarrow> char" where
  "digit_char n = char_of (48 + n)"

definition digits_value :: "string \<Rightarrow> nat" where
  "digits_value z = foldl (\<lambda>a c. 10 * a + digit_val c) 0 z"

text \<open>\<^verbatim>\<open>String(n)\<close> of a non-negative integer: its decimal digits.\<close>

function show_nat :: "nat \<Rightarrow> string" where
  "show_nat n = (if n < 10 then [digit_char n] else show_nat (n div 10) @ [digit_char (n mod 10)])"
  by pat_completeness auto
termination
  by (relation "measure id") auto

declare show_nat.simps [simp del]

definition show_int :: "int \<Rightarrow> string" where
  "show_int i = (if i < 0 then CHR ''-'' # show_nat (nat (- i)) else show_nat (nat i))"

text \<open>\<^verbatim>\<open>s.split(sep)\<close> with a one-character separator: never an empty list.\<close>

fun split_on :: "char \<Rightarrow> string \<Rightarrow> string list" where
  "split_on sep [] = [[]]"
| "split_on sep (c # cs) =
     (if c = sep then [] # split_on sep cs
      else (case split_on sep cs of
              [] \<Rightarrow> [[c]]
            | p # ps \<Rightarrow> (c # p) # ps))"

text \<open>
  \<^verbatim>\<open>parseInt(p, 10)\<close>: leading white space is skipped, one sign is read, and
  the longest prefix of decimal digits is the value; no digit gives \<^verbatim>\<open>NaN\<close>.
\<close>

definition parseInt10 :: "string \<Rightarrow> int option" where
  "parseInt10 p =
     (let s = dropWhile is_space p;
          sgn_rest = (case s of
                        [] \<Rightarrow> (1, s)
                      | c # r \<Rightarrow> if c = CHR ''-'' then (- 1, r)
                                 else if c = CHR ''+'' then (1, r) else (1, s));
          z = takeWhile is_digit (snd sgn_rest)
      in if z = [] then None else Some (fst sgn_rest * int (digits_value z)))"

text \<open>\<^verbatim>\<open>parts[i]\<close>: reading past the end gives \<^verbatim>\<open>undefined\<close>, a \<^verbatim>\<open>NaN\<close> in arithmetic.\<close>

definition part_at :: "int option list \<Rightarrow> nat \<Rightarrow> int option" where
  "part_at parts i = (if i < length parts then parts ! i else None)"

section \<open>Dates: \<^verbatim>\<open>Date.UTC\<close>\<close>

definition msPerDay :: int where
  "msPerDay = 1000 * 60 * 60 * 24"

definition DayFromYear :: "int \<Rightarrow> int" where
  "DayFromYear y = 365 * (y - 1970) + (y - 1969) div 4 - (y - 1901) div 100 + (y - 1601) div 400"

definition InLeapYear :: "int \<Rightarrow> bool" where
  "InLeapYear y = ((y mod 4 = 0 \<and> y mod 100 \<noteq> 0) \<or> y mod 400 = 0)"

text \<open>Days of the year before month \<open>mn\<close> (\<open>0\<close> is January).\<close>

definition DaysBeforeMonth :: "int \<Rightarrow> int \<Rightarrow> int" where
  "DaysBeforeMonth y mn =
     [0, 31, 59, 90, 120, 151, 181, 212, 243, 273, 304, 334] ! nat mn
       + (if 2 \<le> mn \<and> InLeapYear y then 1 else 0)"

definition MakeDay :: "int \<Rightarrow> int \<Rightarrow> int \<Rightarrow> int" where
  "MakeDay year month date =
     (let ym = year + month div 12; mn = month mod 12
      in DayFromYear ym + DaysBeforeMonth ym mn + date - 1)"

definition MakeFullYear :: "int \<Rightarrow> int" where
  "MakeFullYear y = (if 0 \<le> y \<and> y \<le> 99 then 1900 + y else y)"

definition TimeClip :: "int \<Rightarrow> int option" where
  "TimeClip t = (if \<bar>t\<bar> > 8640000000000000 then None else Some t)"

definition Date_UTC :: "int option \<Rightarrow> int option \<Rightarrow> int option \<Rightarrow> int option" where
  "Date_UTC year month date =
     (case (year, month, date) of
        (Some y, Some m, Some d) \<Rightarrow> TimeClip (MakeDay (MakeFullYear y) m d * msPerDay)
      | _ \<Rightarrow> None)"

text \<open>\<^verbatim>\<open>Math.ceil(a / b)\<close> for integers \<open>a\<close> and positive \<open>b\<close>.\<close>

definition ceil_div :: "int \<Rightarrow> int \<Rightarrow> int" where
  "ceil_div a b = - ((- a) div b)"

section \<open>Deadline classification (\<^verbatim>\<open>getDeadlineInfo\<close>)\<close>

record deadline_info =
  info_text :: string
  info_className :: string

text \<open>
  The deadline as a time value: the string is split at \<open>-\<close>, each part is read with
  \<^verbatim>\<open>parseInt\<close>, and the first three parts go to \<^verbatim>\<open>Date.UTC\<close> (month minus one).
\<close>

definition deadlineDate :: "string \<Rightarrow> int option" where
  "deadlineDate deadline =
     (let parts = map parseInt10 (split_on CHR ''-'' deadline)
      in Date_UTC (part_at parts 0) (map_option (\<lambda>m. m - 1) (part_at parts 1)) (part_at parts 2))"

text \<open>
  \<open>today\<close> is the time value of the current local day at 00:00:00.000 (what
  \<^verbatim>\<open>new Date()\<close> holds after \<^verbatim>\<open>setHours(0, 0, 0, 0)\<close>), and \<open>toLocaleDateString\<close> is
  the environment's rendering of a time value in UTC (of \<open>None\<close>, an invalid date).
\<close>

definition getDeadlineInfo :: "int \<Rightarrow> (int option \<Rightarrow> string) \<Rightarrow> string \<Rightarrow> deadline_info" where
  "getDeadlineInfo today toLocaleDateString deadline =
     (if deadline = [] then \<lparr>info_text = ''N/A'', info_className = ''text-muted-foreground''\<rparr>
      else
        let dl = deadlineDate deadline;
            diffDays = map_option (\<lambda>t. ceil_div (t - today) msPerDay) dl;
            formattedDate = toLocaleDateString dl
        in (case diffDays of
              None \<Rightarrow> \<lparr>info_text = formattedDate, info_className = ''text-muted-foreground''\<rparr>
            | Some n \<Rightarrow>
                if n < 0 then \<lparr>info_text = ''Overdue'', info_className = ''text-red-500 font-medium''\<rparr>
                else if n = 0 then \<lparr>info_text = ''Due Today!'', info_className = ''text-orange-500 font-bold''\<rparr>
                else if n \<le> 7 then
                  \<lparr>info_text = ''In '' @ show_int n @ '' day'' @ (if n > 1 then ''s'' else ''''),
                   info_className = ''text-amber-500 font-medium''\<rparr>
                else \<lparr>info_text = formattedDate, info_className = ''text-muted-foreground''\<rparr>))"

text \<open>The calendar date \<open>y-m-d\<close> written as \<^verbatim>\<open>YYYY-MM-DD\<close>, the format of a CFP's deadline.\<close>

definition yyyy_mm_dd :: "nat \<Rightarrow> nat \<Rightarrow> nat \<Rightarrow> string" where
  "yyyy_mm_dd y m d =
     [digit_char (y div 1000), digit_char (y div 100 mod 10), digit_char (y div 10 mod 10),
      digit_char (y mod 10), CHR ''-'', digit_char (m div 10), digit_char (m mod 10), CHR ''-'',
      digit_char (d div 10), digit_char (d mod 10)]"

section \<open>Data model of the developer journey\<close>

text \<open>
  The entity types of the source. Field names carry a prefix, since the fields
  \<^verbatim>\<open>id\<close>, \<^verbatim>\<open>step_id\<close>, \<^verbatim>\<open>description\<close> occur in several types. An optional field
  (\<^verbatim>\<open>role?\<close>) is an \<open>option\<close>.
\<close>

record DeveloperPersona =
  p_id :: string
  p_name :: string
  p_role :: "string option"
  p_description :: "string option"

datatype severity = Low | Medium | High

record PainPoint =
  pp_id :: string
  pp_step_id :: string
  pp_description :: string
  pp_severity :: "severity option"

datatype touchpoint_type =
  BlogPost | VideoTutorial | Email | SocialMediaPost | Docs | Webinar | CaseStudy | Other

record MarketingTouchpoint =
  tp_id :: string
  tp_step_id :: string
  tp_title :: string
  tp_description :: "string option"
  tp_content_url :: "string option"
  tp_touchpoint_type :: touchpoint_type

datatype measurement_type = Count | Percentage | Duration

record JourneyMetric =
  m_id :: string
  m_step_id :: string
  m_metric_name :: string
  m_metric_goal :: "rat option"
  m_measurement_type :: measurement_type

record JourneyAudit =
  a_id :: string
  a_step_id :: string
  a_change_description :: string
  a_changed_by :: string
  a_created_at :: string

record JourneyStep =
  step_id :: string
  step_stage_id :: string
  user_action :: string
  user_goal :: string
  personas :: "DeveloperPersona list"
  pain_points :: "PainPoint list"
  touchpoints :: "MarketingTouchpoint list"
  metrics :: "JourneyMetric list"
  audits :: "JourneyAudit list option"

record JourneyStage =
  stage_id :: string
  stage_name :: string
  stage_order :: int
  steps :: "JourneyStep list"

text \<open>The string values of the literal types.\<close>

fun severity_str :: "severity \<Rightarrow> string" where
  "severity_str Low = ''low''"
| "severity_str Medium = ''medium''"
| "severity_str High = ''high''"

fun touchpoint_type_str :: "touchpoint_type \<Rightarrow> string" where
  "touchpoint_type_str BlogPost = ''Blog Post''"
| "touchpoint_type_str VideoTutorial = ''Video Tutorial''"
| "touchpoint_type_str Email = ''Email''"
| "touchpoint_type_str SocialMediaPost = ''Social Media Post''"
| "touchpoint_type_str Docs = ''Docs''"
| "touchpoint_type_str Webinar = ''Webinar''"
| "touchpoint_type_str CaseStudy = ''Case Study''"
| "touchpoint_type_str Other = ''Other''"

section \<open>Report derivations (\<^verbatim>\<open>JourneyReportModal\<close>)\<close>


record ReportPainPoint = PainPoint +
  rpp_stepAction :: string
  rpp_stageName :: string

record ReportTouchpoint = MarketingTouchpoint +
  rtp_stepAction :: string
  rtp_stageName :: string

record PersonaSummaryRow =
  ps_stageName :: string
  ps_count :: nat

text \<open>
  A \<^verbatim>\<open>Record<string, number>\<close> filled by \<^verbatim>\<open>reduce\<close>: the keys in the order of their
  first insertion, each with its count.
\<close>

type_synonym counts = "(string \<times> nat) list"


record PainPointSummary =
  pps_total :: nat
  bySeverity :: counts

record TouchpointSummary =
  tps_total :: nat
  byType :: counts

record ReportData =
  title :: string
  personaSummary :: "PersonaSummaryRow list"
  painPoints :: "ReportPainPoint list"
  painPointSummary :: PainPointSummary
  rd_touchpoints :: "ReportTouchpoint list"
  touchpointSummary :: TouchpointSummary









section \<open>CSV export (\<^verbatim>\<open>convertToCSV\<close>)\<close>

text \<open>
  The values a row can hold under a key. \<open>JUndefined\<close> is a missing property. Of a
  number the export reads two things only, whether it is falsy (in \<^verbatim>\<open>||\<close>) and its
  string form (in \<^verbatim>\<open>join\<close>); \<open>JNum s\<close> is a number whose string form
  \<^verbatim>\<open>String(n)\<close> is \<open>s\<close>, for instance \<^verbatim>\<open>42\<close>, \<^verbatim>\<open>-0.5\<close>, \<^verbatim>\<open>1e+21\<close>,
  \<^verbatim>\<open>Infinity\<close> or \<^verbatim>\<open>NaN\<close>. The falsy numbers are \<open>0\<close>, \<open>-0\<close> and \<^verbatim>\<open>NaN\<close>: those
  whose string form is \<^verbatim>\<open>0\<close> or \<^verbatim>\<open>NaN\<close>.
\<close>

datatype jsval = JUndefined | JNull | JStr string | JNum string

definition falsy_number :: "string \<Rightarrow> bool" where
  "falsy_number s = (s = ''0'' \<or> s = ''NaN'')"

record header =
  key :: string
  label :: string

definition dquote :: char where
  "dquote = CHR 0x22"

definition comma :: char where
  "comma = CHR '',''"

definition newline :: char where
  "newline = CHR 0x0A"

text \<open>\<^verbatim>\<open>xs.join(sep)\<close> on strings.\<close>

fun join :: "char \<Rightarrow> string list \<Rightarrow> string" where
  "join sep [] = []"
| "join sep [x] = x"
| "join sep (x # y # ys) = x @ sep # join sep (y # ys)"

text \<open>\<^verbatim>\<open>v || ''\<close>: the empty string replaces a falsy value.\<close>

definition or_empty :: "jsval \<Rightarrow> jsval" where
  "or_empty v =
     (case v of
        JUndefined \<Rightarrow> JStr ''''
      | JNull \<Rightarrow> JStr ''''
      | JStr s \<Rightarrow> if s = [] then JStr '''' else JStr s
      | JNum n \<Rightarrow> if falsy_number n then JStr '''' else JNum n)"

text \<open>\<^verbatim>\<open>s.replace(/"/g, '""')\<close>\<close>

definition double_quotes :: "string \<Rightarrow> string" where
  "double_quotes s = concat (map (\<lambda>c. if c = dquote then [dquote, dquote] else [c]) s)"

text \<open>One cell: the value or the empty string, a string quoted, then written by \<^verbatim>\<open>join\<close>.\<close>

definition csv_cell :: "jsval \<Rightarrow> string" where
  "csv_cell v =
     (case or_empty v of
        JStr s \<Rightarrow> dquote # double_quotes s @ [dquote]
      | JNum n \<Rightarrow> n
      | _ \<Rightarrow> [])"

definition convertToCSV :: "(string \<Rightarrow> jsval) list \<Rightarrow> header list \<Rightarrow> string" where
  "convertToCSV data headers =
     (let headerRow = join comma (map label headers);
          bodyRows = map (\<lambda>row. join comma (map (\<lambda>h. csv_cell (row (key h))) headers)) data
      in join newline (headerRow # bodyRows))"

text \<open>The properties of a pain point and of a touchpoint of the report, read by key.\<close>

definition of_opt :: "string option \<Rightarrow> jsval" where
  "of_opt v = (case v of None \<Rightarrow> JUndefined | Some s \<Rightarrow> JStr s)"

definition painPointRow :: "ReportPainPoint \<Rightarrow> string \<Rightarrow> jsval" where
  "painPointRow pp k =
     (if k = ''id'' then JStr (pp_id pp)
      else if k = ''step_id'' then JStr (pp_step_id pp)
      else if k = ''description'' then JStr (pp_description pp)
      else if k = ''severity'' then of_opt (map_option severity_str (pp_severity pp))
      else if k = ''stepAction'' then JStr (rpp_stepAction pp)
      else if k = ''stageName'' then JStr (rpp_stageName pp)
      else JUndefined)"

definition touchpointRow :: "ReportTouchpoint \<Rightarrow> string \<Rightarrow> jsval" where
  "touchpointRow tp k =
     (if k = ''id'' then JStr (tp_id tp)
      else if k = ''step_id'' then JStr (tp_step_id tp)
      else if k = ''title'' then JStr (tp_title tp)
      else if k = ''description'' then of_opt (tp_description tp)
      else if k = ''content_url'' then of_opt (tp_content_url tp)
      else if k = ''touchpoint_type'' then JStr (touchpoint_type_str (tp_touchpoint_type tp))
      else if k = ''stepAction'' then JStr (rtp_stepAction tp)
      else if k = ''stageName'' then JStr (rtp_stageName tp)
      else JUndefined)"

definition painPointHeaders :: "header list" where
  "painPointHeaders =
     [\<lparr>key = ''description'', label = ''Description''\<rparr>,
      \<lparr>key = ''severity'', label = ''Severity''\<rparr>,
      \<lparr>key = ''stageName'', label = ''Stage''\<rparr>,
      \<lparr>key = ''stepAction'', label = ''User Action''\<rparr>]"

definition touchpointHeaders :: "header list" where
  "touchpointHeaders =
     [\<lparr>key = ''title'', label = ''Title''\<rparr>,
      \<lparr>key = ''description'', label = ''Description''\<rparr>,
      \<lparr>key = ''touchpoint_type'', label = ''Type''\<rparr>,
      \<lparr>key = ''content_url'', label = ''URL''\<rparr>,
      \<lparr>key = ''stageName'', label = ''Stage''\<rparr>,
      \<lparr>key = ''stepAction'', label = ''User Action''\<rparr>]"

text \<open>
  The export handlers: nothing without a report, else the CSV text and the file name
  handed to the download.
\<close>

definition handleExportPainPoints :: "ReportData option \<Rightarrow> (string \<times> string) option" where
  "handleExportPainPoints rd =
     (case rd of
        None \<Rightarrow> None
      | Some r \<Rightarrow> Some (convertToCSV (map painPointRow (painPoints r)) painPointHeaders,
                        ''pain-points-report.csv''))"

definition handleExportTouchpoints :: "ReportData option \<Rightarrow> (string \<times> string) option" where
  "handleExportTouchpoints rd =
     (case rd of
        None \<Rightarrow> None
      | Some r \<Rightarrow> Some (convertToCSV (map touchpointRow (rd_touchpoints r)) touchpointHeaders,
                        ''touchpoints-report.csv''))"

subsection \<open>A reader of CSV text\<close>

text \<open>
  The reader against which the export is checked. It follows RFC 4180 with a line feed
  as record separator: a field that starts with a double quote runs to the closing
  quote, two double quotes inside it stand for one, and commas and line feeds inside it
  are data; an unquoted field runs to the next comma or line feed. Input that ends
  right after a record separator (or is empty) has no further record.
\<close>

datatype scan_state = Plain | Quoted | QuoteSeen

fun csv_scan ::
  "scan_state \<Rightarrow> string \<Rightarrow> string list \<Rightarrow> string list list \<Rightarrow> string \<Rightarrow> string list list" where
  "csv_scan st f r rs [] =
     (if st = Plain \<and> f = [] \<and> r = [] then rs else rs @ [r @ [f]])"
| "csv_scan Plain f r rs (c # cs) =
     (if c = comma then csv_scan Plain [] (r @ [f]) rs cs
      else if c = newline then csv_scan Plain [] [] (rs @ [r @ [f]]) cs
      else if c = dquote \<and> f = [] then csv_scan Quoted [] r rs cs
      else csv_scan Plain (f @ [c]) r rs cs)"
| "csv_scan Quoted f r rs (c # cs) =
     (if c = dquote then csv_scan QuoteSeen f r rs cs
      else csv_scan Quoted (f @ [c]) r rs cs)"
| "csv_scan QuoteSeen f r rs (c # cs) =
     (if c = dquote then csv_scan Quoted (f @ [dquote]) r rs cs
      else if c = comma then csv_scan Plain [] (r @ [f]) rs cs
      else if c = newline then csv_scan Plain [] [] (rs @ [r @ [f]]) cs
      else csv_scan Plain (f @ [c]) r rs cs)"

definition csv_parse :: "string \<Rightarrow> string list list" where
  "csv_parse s = csv_scan Plain [] [] [] s"

text \<open>The text a cell stands for.\<close>

definition cell_text :: "jsval \<Rightarrow> string" where
  "cell_text v = (case or_empty v of JStr s \<Rightarrow> s | JNum n \<Rightarrow> n | _ \<Rightarrow> [])"

text \<open>
  Cells that the reader takes back: \<open>out\<close> is either the quoted form of \<open>txt\<close>, or \<open>txt\<close>
  itself when that is not empty and has no comma, line feed or double quote.
\<close>

definition plain_char :: "char \<Rightarrow> bool" where
  "plain_char c = (c \<noteq> comma \<and> c \<noteq> newline \<and> c \<noteq> dquote)"

definition good_cell :: "string \<times> string \<Rightarrow> bool" where
  "good_cell ot =
     (fst ot = dquote # double_quotes (snd ot) @ [dquote]
      \<or> (fst ot = snd ot \<and> snd ot \<noteq> [] \<and> (\<forall>c \<in> set (snd ot). plain_char c)))"

section \<open>The persistence gateway and the aggregator (\<^verbatim>\<open>fetchJourneyData\<close>)\<close>

text \<open>
  What a gateway query resolves to: \<^verbatim>\<open>{ data, error }\<close>, each possibly \<^verbatim>\<open>null\<close>; of an
  error only its message is used.
\<close>

record 'a response =
  resp_data :: "'a option"
  resp_error :: "string option"

text \<open>The rows of the nested select, before reshaping.\<close>

record RawPersonaLink =
  developer_personas :: "DeveloperPersona option"

record RawStep =
  raw_step_id :: string
  raw_step_stage_id :: string
  raw_user_action :: string
  raw_user_goal :: string
  raw_pain_points :: "PainPoint list option"
  raw_touchpoints :: "MarketingTouchpoint list option"
  raw_metrics :: "JourneyMetric list option"
  raw_audits :: "JourneyAudit list option"
  persona_journey_steps :: "RawPersonaLink list"

record RawStage =
  raw_stage_id :: string
  raw_stage_name :: string
  raw_stage_order :: int
  raw_steps :: "RawStep list"

text \<open>The writes that the operations send to the gateway, one constructor per call shape.\<close>

record PainPointDraft =
  ppd_id :: "string option"
  ppd_step_id :: string
  ppd_description :: string
  ppd_severity :: "severity option"

record TouchpointDraft =
  tpd_id :: "string option"
  tpd_step_id :: string
  tpd_title :: string
  tpd_description :: "string option"
  tpd_content_url :: "string option"
  tpd_touchpoint_type :: touchpoint_type

record MetricDraft =
  md_id :: "string option"
  md_step_id :: string
  md_metric_name :: string
  md_metric_goal :: "rat option"
  md_measurement_type :: measurement_type

record PersonaDraft =
  pd_id :: "string option"
  pd_name :: "string option"
  pd_role :: "string option"
  pd_description :: "string option"

datatype gateway_write =
    InsertStage string int
  | DeleteStage string
  | UpdateStage string string string
  | UpdateStep string string string
  | InsertStep string string string
  | DeleteStep string
  | UpsertPainPoint PainPointDraft
  | DeletePainPoint string
  | UpsertTouchpoint TouchpointDraft
  | DeleteTouchpoint string
  | UpsertMetric MetricDraft
  | DeleteMetric string
  | InsertPersonaStep string string
  | DeletePersonaStep string string
  | UpsertPersona PersonaDraft
  | DeletePersona string

text \<open>
  The configured client, as far as the modelled code sees it: what the two selects of the
  aggregator resolve to, and the error (if any) that a write resolves to. The client is
  \<open>None\<close> when the credentials are missing.
\<close>

record gateway =
  select_personas :: "DeveloperPersona list response"
  select_stages :: "RawStage list response"
  write_error :: "gateway_write \<Rightarrow> string option"

record app_state =
  isLoading :: bool
  journeyStages :: "JourneyStage list"
  developerPersonas :: "DeveloperPersona list"

text \<open>\<^verbatim>\<open>xs || []\<close> on a nested array that may be missing.\<close>

definition or_nil :: "'a list option \<Rightarrow> 'a list" where
  "or_nil xs = (case xs of None \<Rightarrow> [] | Some ys \<Rightarrow> ys)"

definition processStep :: "RawStep \<Rightarrow> JourneyStep" where
  "processStep step =
     \<lparr>step_id = raw_step_id step, step_stage_id = raw_step_stage_id step,
      user_action = raw_user_action step, user_goal = raw_user_goal step,
      personas = List.map_filter developer_personas (persona_journey_steps step),
      pain_points = or_nil (raw_pain_points step),
      touchpoints = or_nil (raw_touchpoints step),
      metrics = or_nil (raw_metrics step),
      audits = Some (or_nil (raw_audits step))\<rparr>"

definition processedStages :: "RawStage list \<Rightarrow> JourneyStage list" where
  "processedStages stagesData =
     map (\<lambda>stage. \<lparr>stage_id = raw_stage_id stage, stage_name = raw_stage_name stage,
                    stage_order = raw_stage_order stage,
                    steps = map processStep (raw_steps stage)\<rparr>) stagesData"

text \<open>
  The aggregator returns the new state and the lines written to the error console. With
  a client, each of the two results is handled on its own: an error is logged, data (if
  present) replaces the collection, and the loading flag is cleared at the end.
\<close>

definition fetchJourneyData :: "gateway option \<Rightarrow> app_state \<Rightarrow> app_state \<times> string list" where
  "fetchJourneyData supabase st =
     (let st0 = st\<lparr>isLoading := True\<rparr> in
      case supabase of
        None \<Rightarrow>
          (st0\<lparr>journeyStages := [], developerPersonas := [], isLoading := False\<rparr>,
           [''Supabase client not initialized because credentials are not provided.''])
      | Some client \<Rightarrow>
          let personasRes = select_personas client;
              stagesRes = select_stages client;
              log1 = (case resp_error personasRes of
                        None \<Rightarrow> []
                      | Some m \<Rightarrow> [''Error fetching personas: '' @ m]);
              log2 = (case resp_error stagesRes of
                        None \<Rightarrow> []
                      | Some m \<Rightarrow> [''Error fetching journey stages: '' @ m]);
              st1 = (case resp_data personasRes of
                       None \<Rightarrow> st0
                     | Some personasData \<Rightarrow> st0\<lparr>developerPersonas := personasData\<rparr>);
              st2 = (case resp_data stagesRes of
                       None \<Rightarrow> st1
                     | Some stagesData \<Rightarrow> st1\<lparr>journeyStages := processedStages stagesData\<rparr>)
          in (st2\<lparr>isLoading := False\<rparr>, log1 @ log2))"

section \<open>Journey mutation operations\<close>

text \<open>
  A handler is modelled by what it does in one run: the messages shown with
  \<^verbatim>\<open>alert\<close>, the writes sent to the gateway, whether the refetch callback
  (\<^verbatim>\<open>onDataUpdate\<close>, \<^verbatim>\<open>onPersonaUpdate\<close>) was called, and the component state it leaves.
  \<open>confirmed\<close> is the user's answer to \<^verbatim>\<open>window.confirm\<close>.
\<close>

record 'ui outcome =
  alerts :: "string list"
  writes :: "gateway_write list"
  refetch :: bool
  ui :: 'ui

definition not_configured :: "'ui \<Rightarrow> 'ui outcome" where
  "not_configured u =
     \<lparr>alerts = [''Database connection is not configured.''], writes = [], refetch = False, ui = u\<rparr>"

definition nothing_done :: "'ui \<Rightarrow> 'ui outcome" where
  "nothing_done u = \<lparr>alerts = [], writes = [], refetch = False, ui = u\<rparr>"

text \<open>
  One awaited write: on an error the message is shown and the state is \<open>u_err\<close>; on
  success the refetch callback is called and the state is \<open>u_ok\<close>.
\<close>

definition awaited_write ::
  "gateway \<Rightarrow> gateway_write \<Rightarrow> string \<Rightarrow> 'ui \<Rightarrow> 'ui \<Rightarrow> 'ui outcome" where
  "awaited_write client w failed u_err u_ok =
     (case write_error client w of
        Some m \<Rightarrow> \<lparr>alerts = [failed @ m], writes = [w], refetch = False, ui = u_err\<rparr>
      | None \<Rightarrow> \<lparr>alerts = [], writes = [w], refetch = True, ui = u_ok\<rparr>)"

text \<open>\<^verbatim>\<open>s.trim()\<close>\<close>

definition trim :: "string \<Rightarrow> string" where
  "trim s = rev (dropWhile is_space (rev (dropWhile is_space s)))"

subsection \<open>\<^verbatim>\<open>PersonaManagerModal\<close>\<close>

record persona_ui =
  editingPersona :: "PersonaDraft option"

definition persona_handleSave :: "gateway option \<Rightarrow> PersonaDraft \<Rightarrow> persona_ui \<Rightarrow> persona_ui outcome" where
  "persona_handleSave supabase formData u =
     (case supabase of
        None \<Rightarrow> not_configured u
      | Some client \<Rightarrow>
          if (case pd_name formData of None \<Rightarrow> True | Some n \<Rightarrow> trim n = [])
          then \<lparr>alerts = [''Persona name cannot be empty.''], writes = [], refetch = False, ui = u\<rparr>
          else
            let dataToSave =
                  (if (case pd_id formData of None \<Rightarrow> False | Some i \<Rightarrow> i \<noteq> [])
                   then formData else formData\<lparr>pd_id := None\<rparr>)
            in awaited_write client (UpsertPersona dataToSave) ''Failed to save persona: ''
                 u (u\<lparr>editingPersona := None\<rparr>))"

definition persona_handleDelete :: "gateway option \<Rightarrow> bool \<Rightarrow> string \<Rightarrow> persona_ui \<Rightarrow> persona_ui outcome" where
  "persona_handleDelete supabase confirmed i u =
     (case supabase of
        None \<Rightarrow> not_configured u
      | Some client \<Rightarrow>
          if confirmed
          then awaited_write client (DeletePersona i) ''Failed to delete persona: '' u u
          else nothing_done u)"

subsection \<open>\<^verbatim>\<open>DeveloperJourney\<close>\<close>

datatype step_field = FieldAction | FieldGoal

datatype editing = EditStage string | EditStep string step_field

record journey_ui =
  editing :: "editing option"
  editValue :: string
  editingPainPoint :: "PainPointDraft option"
  activeStepForPersona :: "JourneyStep option"
  editingTouchpoint :: "TouchpointDraft option"
  editingMetric :: "MetricDraft option"

fun step_field_str :: "step_field \<Rightarrow> string" where
  "step_field_str FieldAction = ''action''"
| "step_field_str FieldGoal = ''goal''"

text \<open>The inline editor's save, on blur or Enter.\<close>

definition handleSave :: "gateway option \<Rightarrow> journey_ui \<Rightarrow> journey_ui outcome" where
  "handleSave supabase u =
     (case supabase of
        None \<Rightarrow> not_configured u
      | Some client \<Rightarrow>
          (case editing u of
             None \<Rightarrow> nothing_done u
           | Some e \<Rightarrow>
               let w = (case e of
                          EditStage i \<Rightarrow> UpdateStage ''name'' (editValue u) i
                        | EditStep i f \<Rightarrow> UpdateStep (step_field_str f) (editValue u) i);
                   kind = (case e of EditStage _ \<Rightarrow> ''stage'' | EditStep _ _ \<Rightarrow> ''step'');
                   closed = u\<lparr>editing := None, editValue := ''''\<rparr>
               in awaited_write client w (''Failed to update '' @ kind @ '': '') closed closed))"

definition addStage :: "gateway option \<Rightarrow> JourneyStage list \<Rightarrow> journey_ui \<Rightarrow> journey_ui outcome" where
  "addStage supabase stages u =
     (case supabase of
        None \<Rightarrow> not_configured u
      | Some client \<Rightarrow>
          awaited_write client (InsertStage ''New Stage'' (int (length stages) + 1))
            ''Failed to add stage: '' u u)"

definition deleteStage :: "gateway option \<Rightarrow> bool \<Rightarrow> string \<Rightarrow> journey_ui \<Rightarrow> journey_ui outcome" where
  "deleteStage supabase confirmed stageId u =
     (case supabase of
        None \<Rightarrow> not_configured u
      | Some client \<Rightarrow>
          if confirmed
          then awaited_write client (DeleteStage stageId) ''Failed to delete stage: '' u u
          else nothing_done u)"

definition addStep :: "gateway option \<Rightarrow> string \<Rightarrow> journey_ui \<Rightarrow> journey_ui outcome" where
  "addStep supabase stageId u =
     (case supabase of
        None \<Rightarrow> not_configured u
      | Some client \<Rightarrow>
          awaited_write client (InsertStep stageId ''New User Action'' ''New User Goal'')
            ''Failed to add step: '' u u)"

definition deleteStep :: "gateway option \<Rightarrow> bool \<Rightarrow> string \<Rightarrow> journey_ui \<Rightarrow> journey_ui outcome" where
  "deleteStep supabase confirmed stepId u =
     (case supabase of
        None \<Rightarrow> not_configured u
      | Some client \<Rightarrow>
          if confirmed
          then awaited_write client (DeleteStep stepId) ''Failed to delete step: '' u u
          else nothing_done u)"

definition handleSavePainPoint :: "gateway option \<Rightarrow> PainPointDraft \<Rightarrow> journey_ui \<Rightarrow> journey_ui outcome" where
  "handleSavePainPoint supabase painPointData u =
     (case supabase of
        None \<Rightarrow> not_configured u
      | Some client \<Rightarrow>
          awaited_write client (UpsertPainPoint painPointData) ''Failed to save pain point: ''
            u (u\<lparr>editingPainPoint := None\<rparr>))"

definition handleDeletePainPoint :: "gateway option \<Rightarrow> string \<Rightarrow> journey_ui \<Rightarrow> journey_ui outcome" where
  "handleDeletePainPoint supabase painPointId u =
     (case supabase of
        None \<Rightarrow> not_configured u
      | Some client \<Rightarrow>
          awaited_write client (DeletePainPoint painPointId) ''Failed to delete pain point: '' u u)"

definition handleSaveTouchpoint :: "gateway option \<Rightarrow> TouchpointDraft \<Rightarrow> journey_ui \<Rightarrow> journey_ui outcome" where
  "handleSaveTouchpoint supabase touchpointData u =
     (case supabase of
        None \<Rightarrow> not_configured u
      | Some client \<Rightarrow>
          awaited_write client (UpsertTouchpoint touchpointData) ''Failed to save touchpoint: ''
            u (u\<lparr>editingTouchpoint := None\<rparr>))"

definition handleDeleteTouchpoint :: "gateway option \<Rightarrow> string \<Rightarrow> journey_ui \<Rightarrow> journey_ui outcome" where
  "handleDeleteTouchpoint supabase touchpointId u =
     (case supabase of
        None \<Rightarrow> not_configured u
      | Some client \<Rightarrow>
          awaited_write client (DeleteTouchpoint touchpointId) ''Failed to delete touchpoint: '' u u)"

definition handleSaveMetric :: "gateway option \<Rightarrow> MetricDraft \<Rightarrow> journey_ui \<Rightarrow> journey_ui outcome" where
  "handleSaveMetric supabase metricData u =
     (case supabase of
        None \<Rightarrow> not_configured u
      | Some client \<Rightarrow>
          awaited_write client (UpsertMetric metricData) ''Failed to save metric: ''
            u (u\<lparr>editingMetric := None\<rparr>))"

definition handleDeleteMetric :: "gateway option \<Rightarrow> string \<Rightarrow> journey_ui \<Rightarrow> journey_ui outcome" where
  "handleDeleteMetric supabase metricId u =
     (case supabase of
        None \<Rightarrow> not_configured u
      | Some client \<Rightarrow>
          awaited_write client (DeleteMetric metricId) ''Failed to delete metric: '' u u)"

text \<open>
  \<^verbatim>\<open>activeStepForPersona?.personas.some(p => p.id === persona.id)\<close>: without an active
  step the value is \<^verbatim>\<open>undefined\<close>, which the \<^verbatim>\<open>if\<close> takes as false.
\<close>

definition isSelected :: "journey_ui \<Rightarrow> DeveloperPersona \<Rightarrow> bool" where
  "isSelected u persona =
     (case activeStepForPersona u of
        None \<Rightarrow> False
      | Some a \<Rightarrow> list_ex (\<lambda>p. p_id p = p_id persona) (personas a))"

definition togglePersonaForStep ::
  "gateway option \<Rightarrow> string \<Rightarrow> DeveloperPersona \<Rightarrow> journey_ui \<Rightarrow> journey_ui outcome" where
  "togglePersonaForStep supabase stepId persona u =
     (case supabase of
        None \<Rightarrow> not_configured u
      | Some client \<Rightarrow>
          if isSelected u persona
          then awaited_write client (DeletePersonaStep (p_id persona) stepId)
                 ''Failed to remove persona: '' u u
          else awaited_write client (InsertPersonaStep (p_id persona) stepId)
                 ''Failed to add persona: '' u u)"

text \<open>
  The two places that call \<^verbatim>\<open>togglePersonaForStep\<close>: the close button of a persona chip
  on a step, and a check box of the popover of the active step (rendered only when there
  is an active step).
\<close>

definition chip_close_click ::
  "gateway option \<Rightarrow> JourneyStep \<Rightarrow> DeveloperPersona \<Rightarrow> journey_ui \<Rightarrow> journey_ui outcome" where
  "chip_close_click supabase step p u = togglePersonaForStep supabase (step_id step) p u"

definition popover_checkbox_change ::
  "gateway option \<Rightarrow> DeveloperPersona \<Rightarrow> journey_ui \<Rightarrow> journey_ui outcome" where
  "popover_checkbox_change supabase p u =
     (case activeStepForPersona u of
        None \<Rightarrow> nothing_done u
      | Some a \<Rightarrow> togglePersonaForStep supabase (step_id a) p u)"

subsection \<open>The editors' own save buttons\<close>

definition painPointEditor_handleSave ::
  "gateway option \<Rightarrow> PainPointDraft \<Rightarrow> journey_ui \<Rightarrow> journey_ui outcome" where
  "painPointEditor_handleSave supabase formData u =
     (if trim (ppd_description formData) = []
      then \<lparr>alerts = [''Pain point description is required.''], writes = [], refetch = False, ui = u\<rparr>
      else handleSavePainPoint supabase formData u)"

definition touchpointEditor_handleSave ::
  "gateway option \<Rightarrow> TouchpointDraft \<Rightarrow> journey_ui \<Rightarrow> journey_ui outcome" where
  "touchpointEditor_handleSave supabase formData u =
     (if trim (tpd_title formData) = []
      then \<lparr>alerts = [''Touchpoint title is required.''], writes = [], refetch = False, ui = u\<rparr>
      else handleSaveTouchpoint supabase formData u)"

definition metricEditor_handleSave ::
  "gateway option \<Rightarrow> MetricDraft \<Rightarrow> journey_ui \<Rightarrow> journey_ui outcome" where
  "metricEditor_handleSave supabase formData u =
     (if trim (md_metric_name formData) = []
      then \<lparr>alerts = [''Metric name is required.''], writes = [], refetch = False, ui = u\<rparr>
      else handleSaveMetric supabase formData u)"

subsection \<open>The application around a handler\<close>

text \<open>
  The refetch callback of both components is \<^verbatim>\<open>fetchJourneyData\<close>: the stage tree and
  the persona list change only when a handler has called it.
\<close>

definition after_handler :: "gateway option \<Rightarrow> app_state \<Rightarrow> 'ui outcome \<Rightarrow> app_state" where
  "after_handler supabase st out = (if refetch out then fst (fetchJourneyData supabase st) else st)"

text \<open>
  What it means for a handler run \<open>out\<close>, started in component state \<open>u\<close> and
  application state \<open>st\<close> without a client, to be stopped: a message was shown, nothing
  was written, and both states are as before.
\<close>

definition stopped :: "'ui \<Rightarrow> app_state \<Rightarrow> 'ui outcome \<Rightarrow> bool" where
  "stopped u st out =
     (alerts out \<noteq> [] \<and> writes out = [] \<and> ui out = u \<and> after_handler None st out = st)"

section \<open>A small journey used to instantiate the theorems\<close>

definition ex_persona :: "string \<Rightarrow> DeveloperPersona" where
  "ex_persona i = \<lparr>p_id = i, p_name = ''Persona '' @ i, p_role = None, p_description = None\<rparr>"

definition ex_pain :: "string \<Rightarrow> string \<Rightarrow> severity option \<Rightarrow> PainPoint" where
  "ex_pain i d sev = \<lparr>pp_id = i, pp_step_id = ''s1'', pp_description = d, pp_severity = sev\<rparr>"

definition ex_step1 :: JourneyStep where
  "ex_step1 =
     \<lparr>step_id = ''s1'', step_stage_id = ''g1'', user_action = ''Install'', user_goal = ''Run it'',
      personas = [ex_persona ''a'', ex_persona ''c''],
      pain_points = [ex_pain ''1'' ''slow, and \"odd\"'' None, ex_pain ''2'' ''docs'' (Some High)],
      touchpoints = [], metrics = [], audits = None\<rparr>"

definition ex_step2 :: JourneyStep where
  "ex_step2 =
     \<lparr>step_id = ''s2'', step_stage_id = ''g1'', user_action = ''Query'', user_goal = ''See data'',
      personas = [ex_persona ''b'', ex_persona ''c''],
      pain_points = [ex_pain ''3'' ''errors'' None],
      touchpoints = [], metrics = [], audits = Some []\<rparr>"

definition ex_stage :: JourneyStage where
  "ex_stage = \<lparr>stage_id = ''g1'', stage_name = ''Onboarding'', stage_order = 1,
                steps = [ex_step1, ex_step2]\<rparr>"

definition ex_report_pain :: ReportPainPoint where
  "ex_report_pain =
     PainPoint.extend (ex_pain ''3'' ''errors'' None) (ReportPainPoint.fields ''Query'' ''Onboarding'')"

definition ex_client :: gateway where
  "ex_client =
     \<lparr>select_personas = \<lparr>resp_data = Some [ex_persona ''a''], resp_error = None\<rparr>,
      select_stages = \<lparr>resp_data = None, resp_error = Some ''timeout''\<rparr>,
      write_error = (\<lambda>w. None)\<rparr>"

definition ex_ui :: journey_ui where
  "ex_ui = \<lparr>editing = None, editValue = '''', editingPainPoint = None,
            activeStepForPersona = None, editingTouchpoint = None, editingMetric = None\<rparr>"

definition ex_app :: app_state where
  "ex_app = \<lparr>isLoading = False, journeyStages = [ex_stage], developerPersonas = []\<rparr>"

section \<open>Properties of the deadline classifier\<close>

lemma digit_val_char [simp]: "n < 10 \<Longrightarrow> digit_val (digit_char n) = n"
  by (simp add: digit_val_def digit_char_def)

lemma is_digit_char [simp]: "n < 10 \<Longrightarrow> is_digit (digit_char n)"
  by (simp add: is_digit_def digit_char_def)

lemma char_eq_code: "c = d \<longleftrightarrow> (of_char c :: nat) = of_char d"
  by auto

lemma digit_char_plain [simp]: 
  "n < 10 \<Longrightarrow> digit_char n \<noteq> CHR ''-''" 
  "n < 10 \<Longrightarrow> digit_char n \<noteq> CHR ''+''"
  "n < 10 \<Longrightarrow> \<not> is_space (digit_char n)"
  "n < 10 \<Longrightarrow> CHR ''-'' \<noteq> digit_char n"
  by (simp_all add: char_eq_code is_space_def digit_char_def)

lemma parseInt10_digits:
  assumes "z \<noteq> []" "\<forall>c \<in> set z. is_digit c \<and> \<not> is_space c \<and> c \<noteq> CHR ''-'' \<and> c \<noteq> CHR ''+''"
  shows "parseInt10 z = Some (int (digits_value z))"
proof -
  obtain c r where z: "z = c # r" using assms(1) by (cases z) auto
  have tw: "takeWhile is_digit r = r" using assms(2) z by (simp add: takeWhile_eq_all_conv)
  have dw: "dropWhile is_space z = z" using assms(2) z by simp
  show ?thesis
    unfolding parseInt10_def dw using assms(2) z by (simp add: Let_def tw)
qed

lemma split_three:
  assumes "CHR ''-'' \<notin> set a" "CHR ''-'' \<notin> set b" "CHR ''-'' \<notin> set c"
  shows "split_on CHR ''-'' (a @ CHR ''-'' # b @ CHR ''-'' # c) = [a, b, c]"
proof -
  have ne: "split_on CHR ''-'' v \<noteq> []" for v
    by (induction v) (auto split: list.splits)
  have one: "split_on CHR ''-'' (u @ v) = (case split_on CHR ''-'' v of [] \<Rightarrow> [u] | p # ps \<Rightarrow> (u @ p) # ps)"
    if "CHR ''-'' \<notin> set u" for u v
    using that ne[of v] by (induction u) (auto split: list.splits)
  have nil: "split_on CHR ''-'' u = [u]" if "CHR ''-'' \<notin> set u" for u
    using one[OF that, of "[]"] by simp
  show ?thesis
    using assms by (simp add: one nil)
qed

lemma four_digits:
  fixes y :: nat
  shows "10 * (10 * (10 * (y div 1000) + y div 100 mod 10) + y div 10 mod 10) + y mod 10 = y"
proof -
  have a: "y div 1000 = y div 100 div 10" using div_mult2_eq [of y 100 10] by simp
  have b: "y div 100 = y div 10 div 10" using div_mult2_eq [of y 10 10] by simp
  have c: "10 * (y div 100 div 10) + y div 100 mod 10 = y div 100" by simp
  have d: "10 * (y div 10 div 10) + y div 10 mod 10 = y div 10" by simp
  have "10 * (10 * (y div 100) + y div 10 mod 10) + y mod 10 = y"
    unfolding b d by simp
  then show ?thesis unfolding a c .
qed

lemma parse_parts:
  assumes "y < 10000" "m < 100" "d < 100"
  shows "map parseInt10 (split_on CHR ''-'' (yyyy_mm_dd y m d)) = [Some (int y), Some (int m), Some (int d)]"
proof -
  define a where "a = [digit_char (y div 1000), digit_char (y div 100 mod 10), digit_char (y div 10 mod 10), digit_char (y mod 10)]"
  define b where "b = [digit_char (m div 10), digit_char (m mod 10)]"
  define c where "c = [digit_char (d div 10), digit_char (d mod 10)]"
  have lt: "y div 1000 < 10" "m div 10 < 10" "d div 10 < 10" using assms by auto
  have shape: "yyyy_mm_dd y m d = a @ CHR ''-'' # b @ CHR ''-'' # c"
    by (simp add: yyyy_mm_dd_def a_def b_def c_def)
  have nd: "CHR ''-'' \<notin> set a" "CHR ''-'' \<notin> set b" "CHR ''-'' \<notin> set c"
    using lt by (simp_all add: a_def b_def c_def)
  have va: "digits_value a = y"
  proof -
    note four_digits [of y]
    moreover have "digits_value a = 10 * (10 * (10 * (y div 1000) + y div 100 mod 10) + y div 10 mod 10) + y mod 10"
      using lt by (simp add: a_def digits_value_def)
    ultimately show ?thesis by simp
  qed
  have vb: "digits_value b = m" using lt by (simp add: b_def digits_value_def)
  have vc: "digits_value c = d" using lt by (simp add: c_def digits_value_def)
  have pa: "parseInt10 a = Some (int y)"
    using parseInt10_digits[of a] lt va by (simp add: a_def)
  have pb: "parseInt10 b = Some (int m)"
    using parseInt10_digits[of b] lt vb by (simp add: b_def)
  have pc: "parseInt10 c = Some (int d)"
    using parseInt10_digits[of c] lt vc by (simp add: c_def)
  show ?thesis
    unfolding shape split_three[OF nd] using pa pb pc by simp
qed


lemma int_div_bounds:
  fixes a k :: int
  assumes "0 < k"
  shows "k * (a div k) \<le> a \<and> a < k * (a div k) + k"
proof -
  have "a = k * (a div k) + a mod k" by simp
  moreover have "0 \<le> a mod k" "a mod k < k" using assms by simp_all
  ultimately show ?thesis by linarith
qed

lemma DaysBeforeMonth_bounds:
  assumes "0 \<le> mn" "mn < 12"
  shows "0 \<le> DaysBeforeMonth y mn \<and> DaysBeforeMonth y mn \<le> 335"
proof -
  define tbl :: "int list" where "tbl = [0, 31, 59, 90, 120, 151, 181, 212, 243, 273, 304, 334]"
  have all: "\<forall>x \<in> set tbl. 0 \<le> x \<and> x \<le> 334" by (simp add: tbl_def)
  have "nat mn < length tbl" using assms by (simp add: tbl_def)
  then have "tbl ! nat mn \<in> set tbl" by (rule nth_mem)
  with all have r: "0 \<le> tbl ! nat mn \<and> tbl ! nat mn \<le> 334" by blast
  have "DaysBeforeMonth y mn = tbl ! nat mn + (if 2 \<le> mn \<and> InLeapYear y then 1 else 0)"
    unfolding DaysBeforeMonth_def tbl_def ..
  with r show ?thesis by (simp split: if_splits)
qed

lemma DayFromYear_bounds:
  assumes "- 10 \<le> y" "y \<le> 10020"
  shows "- 800000 \<le> DayFromYear y \<and> DayFromYear y \<le> 3000000"
proof -
  define q4 where "q4 = (y - 1969) div 4"
  define q100 where "q100 = (y - 1901) div 100"
  define q400 where "q400 = (y - 1601) div 400"
  have a: "4 * q4 \<le> y - 1969" "y - 1969 < 4 * q4 + 4"
    using int_div_bounds [of 4 "y - 1969"] by (simp_all add: q4_def)
  have b: "100 * q100 \<le> y - 1901" "y - 1901 < 100 * q100 + 100"
    using int_div_bounds [of 100 "y - 1901"] by (simp_all add: q100_def)
  have c: "400 * q400 \<le> y - 1601" "y - 1601 < 400 * q400 + 400"
    using int_div_bounds [of 400 "y - 1601"] by (simp_all add: q400_def)
  have e: "DayFromYear y = 365 * y - 719050 + q4 - q100 + q400"
    by (simp add: DayFromYear_def q4_def q100_def q400_def)
  have lo: "- 800000 \<le> DayFromYear y" using e assms a b c by linarith
  have hi: "DayFromYear y \<le> 3000000" using e assms a b c by linarith
  from lo hi show ?thesis ..
qed

lemma MakeDay_bounds:
  assumes "0 \<le> y" "y < 10000" "- 1 \<le> m" "m < 100" "0 \<le> d" "d < 100"
  shows "\<bar>MakeDay y m d\<bar> \<le> 4000000"
proof -
  define q where "q = m div 12"
  have mn: "0 \<le> m mod 12" "m mod 12 < 12" by simp_all
  have qb: "12 * q \<le> m" "m < 12 * q + 12"
    using int_div_bounds [of 12 m] by (simp_all add: q_def)
  have ym: "- 10 \<le> y + q" "y + q \<le> 10020"
    using assms qb by linarith+
  have a: "0 \<le> DaysBeforeMonth (y + q) (m mod 12)" "DaysBeforeMonth (y + q) (m mod 12) \<le> 335"
    using DaysBeforeMonth_bounds [OF mn, of "y + q"] by simp_all
  have b: "- 800000 \<le> DayFromYear (y + q)" "DayFromYear (y + q) \<le> 3000000"
    using DayFromYear_bounds [OF ym] by simp_all
  have "MakeDay y m d = DayFromYear (y + q) + DaysBeforeMonth (y + q) (m mod 12) + d - 1"
    by (simp add: MakeDay_def q_def Let_def)
  then show ?thesis
    using a b assms by linarith
qed

lemma ceil_div_bounds:
  assumes "0 < k"
  shows "k * (ceil_div a k - 1) < a \<and> a \<le> k * ceil_div a k"
proof -
  define q where "q = (- a) div k"
  have "k * q \<le> - a \<and> - a < k * q + k"
    unfolding q_def using assms by (rule int_div_bounds)
  moreover have "ceil_div a k = - q" by (simp add: ceil_div_def q_def)
  moreover have "k * (- q - 1) = - (k * q) - k" by (simp add: algebra_simps)
  moreover have "k * (- q) = - (k * q)" by simp
  ultimately show ?thesis by simp
qed

lemma ceil_div_le_iff:
  assumes "0 < k"
  shows "ceil_div a k \<le> n \<longleftrightarrow> a \<le> k * n"
proof
  assume "ceil_div a k \<le> n"
  then have "k * ceil_div a k \<le> k * n" using assms by simp
  with ceil_div_bounds [OF assms, of a] show "a \<le> k * n" by linarith
next
  assume h: "a \<le> k * n"
  show "ceil_div a k \<le> n"
  proof (rule ccontr)
    assume "\<not> ceil_div a k \<le> n"
    then have "n \<le> ceil_div a k - 1" by simp
    then have "k * n \<le> k * (ceil_div a k - 1)" using assms by simp
    with ceil_div_bounds [OF assms, of a] h show False by linarith
  qed
qed

lemma deadlineDate_yyyy_mm_dd:
  assumes "100 \<le> y" "y < 10000" "m < 100" "d < 100"
  shows "deadlineDate (yyyy_mm_dd y m d) = Some (MakeDay (int y) (int m - 1) (int d) * msPerDay)"
proof -
  have b: "\<bar>MakeDay (int y) (int m - 1) (int d)\<bar> \<le> 4000000"
    using assms by (intro MakeDay_bounds) simp_all
  have clip: "TimeClip (MakeDay (int y) (int m - 1) (int d) * msPerDay)
                = Some (MakeDay (int y) (int m - 1) (int d) * msPerDay)"
    using b by (simp add: TimeClip_def msPerDay_def abs_mult)
  have fy: "MakeFullYear (int y) = int y" using assms by (simp add: MakeFullYear_def)
  show ?thesis
    unfolding deadlineDate_def parse_parts [OF assms(2-4)]
    by (simp add: part_at_def Date_UTC_def fy clip)
qed

lemma yyyy_mm_dd_not_empty: "yyyy_mm_dd y m d \<noteq> []"
  by (simp add: yyyy_mm_dd_def)

lemma show_int_digit: "0 \<le> n \<Longrightarrow> n < 10 \<Longrightarrow> show_int n = [digit_char (nat n)]"
  by (simp add: show_int_def show_nat.simps [of "nat n"] nat_less_iff)

text \<open>
  Claim C10. For a CFP whose \<^verbatim>\<open>submission_deadline\<close> is the empty string the classifier
  answers \<^verbatim>\<open>N/A\<close>, whatever the current day and the locale's date format are: nothing
  is parsed and no difference of days is computed.
\<close>

theorem getDeadlineInfo_empty:
  "getDeadlineInfo today toLocaleDateString [] =
     \<lparr>info_text = ''N/A'', info_className = ''text-muted-foreground''\<rparr>"
  by (simp add: getDeadlineInfo_def)

text \<open>
  The label of a deadline \<^verbatim>\<open>YYYY-MM-DD\<close> in terms of what the code computes: \<open>t\<close> is
  00:00 UTC of that calendar day, \<open>today\<close> is 00:00 local time of the current day, and
  \<open>diffDays\<close> is their difference in days, rounded up.
\<close>

lemma getDeadlineInfo_label:
  assumes "100 \<le> y" "y < 10000" "m < 100" "d < 100"
    and "t = MakeDay (int y) (int m - 1) (int d) * msPerDay"
    and "diffDays = ceil_div (t - today) msPerDay"
  shows "info_text (getDeadlineInfo today fmt (yyyy_mm_dd y m d)) =
           (if diffDays < 0 then ''Overdue''
            else if diffDays = 0 then ''Due Today!''
            else if diffDays = 1 then ''In 1 day''
            else if diffDays \<le> 7 then ''In '' @ [digit_char (nat diffDays)] @ '' days''
            else fmt (Some t))
         \<and> (diffDays < 0 \<longleftrightarrow> t - today \<le> - msPerDay)
         \<and> (diffDays = 0 \<longleftrightarrow> - msPerDay < t - today \<and> t - today \<le> 0)
         \<and> (1 \<le> diffDays \<and> diffDays \<le> 7 \<longleftrightarrow> 0 < t - today \<and> t - today \<le> 7 * msPerDay)
         \<and> (\<forall>off. t = today + off + 30 * msPerDay \<and> \<bar>off\<bar> < msPerDay
               \<longrightarrow> info_text (getDeadlineInfo today fmt (yyyy_mm_dd y m d)) = fmt (Some t))"
proof -
  have dd: "deadlineDate (yyyy_mm_dd y m d) = Some t"
    using deadlineDate_yyyy_mm_dd [OF assms(1-4)] assms(5) by simp
  have one: "show_int 1 = ''1''" by code_simp
  have label: "info_text (getDeadlineInfo today fmt (yyyy_mm_dd y m d)) =
           (if diffDays < 0 then ''Overdue''
            else if diffDays = 0 then ''Due Today!''
            else if diffDays = 1 then ''In 1 day''
            else if diffDays \<le> 7 then ''In '' @ [digit_char (nat diffDays)] @ '' days''
            else fmt (Some t))"
    unfolding getDeadlineInfo_def
    using assms(6) by (simp add: yyyy_mm_dd_not_empty dd Let_def show_int_digit one)
  have k: "0 < msPerDay" by (simp add: msPerDay_def)
  have le: "diffDays \<le> n \<longleftrightarrow> t - today \<le> msPerDay * n" for n
    unfolding assms(6) by (rule ceil_div_le_iff [OF k])
  have l1: "diffDays \<le> - 1 \<longleftrightarrow> t - today \<le> - msPerDay" using le [of "- 1"] by simp
  have l0: "diffDays \<le> 0 \<longleftrightarrow> t - today \<le> 0" using le [of 0] by simp
  have l7: "diffDays \<le> 7 \<longleftrightarrow> t - today \<le> 7 * msPerDay"
    using le [of 7] by (simp add: mult.commute)
  have neg: "diffDays < 0 \<longleftrightarrow> t - today \<le> - msPerDay"
    using l1 by linarith
  have zero: "diffDays = 0 \<longleftrightarrow> - msPerDay < t - today \<and> t - today \<le> 0"
    using l1 l0 by linarith
  have soon: "1 \<le> diffDays \<and> diffDays \<le> 7 \<longleftrightarrow> 0 < t - today \<and> t - today \<le> 7 * msPerDay"
    using l0 l7 by linarith
  have far: "info_text (getDeadlineInfo today fmt (yyyy_mm_dd y m d)) = fmt (Some t)"
    if "t = today + off + 30 * msPerDay" "\<bar>off\<bar> < msPerDay" for off
  proof -
    have "\<not> t - today \<le> 7 * msPerDay"
      using that k by linarith
    then have "7 < diffDays"
      using l7 by linarith
    then show ?thesis using label by simp
  qed
  show ?thesis using label neg zero soon far by blast
qed

text \<open>
  East of UTC, 00:00 local time of a day lies before 00:00 UTC of that day, by the
  offset \<open>off\<close> of the zone. The rounded-up difference for a deadline on the current
  local day is then one day.
\<close>

lemma getDeadlineInfo_east_of_UTC:
  assumes "100 \<le> y" "y < 10000" "m < 100" "d < 100"
    and "0 < off" "off < msPerDay"
    and "today = MakeDay (int y) (int m - 1) (int d) * msPerDay - off"
  shows "info_text (getDeadlineInfo today fmt (yyyy_mm_dd y m d)) = ''In 1 day''"
proof -
  define t where "t = MakeDay (int y) (int m - 1) (int d) * msPerDay"
  define diffDays where "diffDays = ceil_div (t - today) msPerDay"
  have k: "0 < msPerDay" by (simp add: msPerDay_def)
  have diff: "t - today = off" using assms(7) by (simp add: t_def)
  have "diffDays \<le> 1 \<longleftrightarrow> off \<le> msPerDay * 1"
    unfolding diffDays_def diff by (rule ceil_div_le_iff [OF k])
  moreover have "diffDays \<le> 0 \<longleftrightarrow> off \<le> msPerDay * 0"
    unfolding diffDays_def diff by (rule ceil_div_le_iff [OF k])
  ultimately have one: "diffDays = 1" using assms(5,6) by simp
  show ?thesis
    using getDeadlineInfo_label [OF assms(1-4) t_def diffDays_def, of fmt, THEN conjunct1] one
    by simp
qed

text \<open>
  Claim C3, on the code. The time value 1741989600000 is 00:00 of 15 March 2025 in a
  zone two hours east of UTC. With it as \<open>today\<close>, the deadline of that same day is
  labelled \<^verbatim>\<open>In 1 day\<close> and not \<^verbatim>\<open>Due Today!\<close>, the deadline of the day before is
  labelled \<^verbatim>\<open>Due Today!\<close> and not \<^verbatim>\<open>Overdue\<close>, and the deadline five days later is
  labelled \<^verbatim>\<open>In 6 days\<close>: the difference is taken between 00:00 UTC of the deadline and
  00:00 local time of today.
\<close>

theorem getDeadlineInfo_zone_shift:
  "(1741989600000 :: int) = MakeDay 2025 2 15 * msPerDay - 2 * 60 * 60 * 1000
   \<and> info_text (getDeadlineInfo 1741989600000 (\<lambda>_. ''Mar 15, 2025'') ''2025-03-15'') = ''In 1 day''
   \<and> info_text (getDeadlineInfo 1741989600000 (\<lambda>_. ''Mar 14, 2025'') ''2025-03-14'') = ''Due Today!''
   \<and> info_text (getDeadlineInfo 1741989600000 (\<lambda>_. ''Mar 20, 2025'') ''2025-03-20'') = ''In 6 days''"
  by code_simp

section \<open>Properties of the report derivations\<close>



















section \<open>Properties of the CSV export\<close>

lemma special_chars_distinct [simp]:
  "comma \<noteq> newline" "comma \<noteq> dquote" "newline \<noteq> dquote"
  "newline \<noteq> comma" "dquote \<noteq> comma" "dquote \<noteq> newline"
  by (simp_all add: comma_def newline_def dquote_def)

lemma scan_quoted_body:
  "csv_scan Quoted f r rs (double_quotes s @ dquote # rest) = csv_scan QuoteSeen (f @ s) r rs rest"
proof (induction s arbitrary: f)
  case Nil
  then show ?case by (simp add: double_quotes_def)
next
  case (Cons c s)
  have step: "double_quotes (c # s) = (if c = dquote then [dquote, dquote] else [c]) @ double_quotes s"
    by (simp add: double_quotes_def)
  show ?case
  proof (cases "c = dquote")
    case True
    show ?thesis
      unfolding step using True Cons.IH [of "f @ [dquote]"] by simp
  next
    case False
    show ?thesis
      unfolding step using False Cons.IH [of "f @ [c]"] by simp
  qed
qed

lemma scan_plain_run:
  assumes "\<forall>c \<in> set s. plain_char c"
  shows "csv_scan Plain f r rs (s @ rest) = csv_scan Plain (f @ s) r rs rest"
  using assms
proof (induction s arbitrary: f)
  case Nil
  then show ?case by simp
next
  case (Cons c s)
  then have "plain_char c" and rest: "\<forall>c \<in> set s. plain_char c" by simp_all
  then show ?case
    using Cons.IH [OF rest, of "f @ [c]"] by (simp add: plain_char_def)
qed

lemma scan_cell_end:
  assumes "good_cell (out, t)"
  shows "csv_scan Plain [] r rs out = rs @ [r @ [t]]"
proof -
  from assms consider
    (q) "out = dquote # double_quotes t @ [dquote]"
  | (p) "out = t" "t \<noteq> []" "\<forall>c \<in> set t. plain_char c"
    by (auto simp: good_cell_def)
  then show ?thesis
  proof cases
    case q
    then show ?thesis
      using scan_quoted_body [of "[]" r rs t "[]"] by simp
  next
    case p
    then show ?thesis
      using scan_plain_run [OF p(3), of "[]" r rs "[]"] by simp
  qed
qed

lemma scan_cell_comma:
  assumes "good_cell (out, t)"
  shows "csv_scan Plain [] r rs (out @ comma # rest) = csv_scan Plain [] (r @ [t]) rs rest"
proof -
  from assms consider
    (q) "out = dquote # double_quotes t @ [dquote]"
  | (p) "out = t" "t \<noteq> []" "\<forall>c \<in> set t. plain_char c"
    by (auto simp: good_cell_def)
  then show ?thesis
  proof cases
    case q
    then show ?thesis
      using scan_quoted_body [of "[]" r rs t "comma # rest"] by simp
  next
    case p
    then show ?thesis
      using scan_plain_run [OF p(3), of "[]" r rs "comma # rest"] by simp
  qed
qed

lemma scan_cell_newline:
  assumes "good_cell (out, t)"
  shows "csv_scan Plain [] r rs (out @ newline # rest) = csv_scan Plain [] [] (rs @ [r @ [t]]) rest"
proof -
  from assms consider
    (q) "out = dquote # double_quotes t @ [dquote]"
  | (p) "out = t" "t \<noteq> []" "\<forall>c \<in> set t. plain_char c"
    by (auto simp: good_cell_def)
  then show ?thesis
  proof cases
    case q
    then show ?thesis
      using scan_quoted_body [of "[]" r rs t "newline # rest"] by simp
  next
    case p
    then show ?thesis
      using scan_plain_run [OF p(3), of "[]" r rs "newline # rest"] by simp
  qed
qed

lemma scan_row_end:
  assumes "cells \<noteq> []" "\<forall>c \<in> set cells. good_cell c"
  shows "csv_scan Plain [] r rs (join comma (map fst cells)) = rs @ [r @ map snd cells]"
  using assms
proof (induction cells arbitrary: r)
  case Nil
  then show ?case by simp
next
  case (Cons c cells)
  obtain out t where c: "c = (out, t)" by (cases c)
  have g: "good_cell (out, t)" using Cons.prems c by simp
  show ?case
  proof (cases cells)
    case Nil
    then show ?thesis using scan_cell_end [OF g] c by simp
  next
    case (Cons c' cells')
    then have "csv_scan Plain [] (r @ [t]) rs (join comma (map fst cells))
                 = rs @ [(r @ [t]) @ map snd cells]"
      using Cons.prems by (intro Cons.IH) simp_all
    then show ?thesis
      using scan_cell_comma [OF g] c Cons by simp
  qed
qed

lemma scan_row_newline:
  assumes "cells \<noteq> []" "\<forall>c \<in> set cells. good_cell c"
  shows "csv_scan Plain [] r rs (join comma (map fst cells) @ newline # rest)
           = csv_scan Plain [] [] (rs @ [r @ map snd cells]) rest"
  using assms
proof (induction cells arbitrary: r)
  case Nil
  then show ?case by simp
next
  case (Cons c cells)
  obtain out t where c: "c = (out, t)" by (cases c)
  have g: "good_cell (out, t)" using Cons.prems c by simp
  show ?case
  proof (cases cells)
    case Nil
    then show ?thesis using scan_cell_newline [OF g] c by simp
  next
    case (Cons c' cells')
    then have "csv_scan Plain [] (r @ [t]) rs (join comma (map fst cells) @ newline # rest)
                 = csv_scan Plain [] [] (rs @ [(r @ [t]) @ map snd cells]) rest"
      using Cons.prems by (intro Cons.IH) simp_all
    then show ?thesis
      using scan_cell_comma [OF g] c Cons by simp
  qed
qed

lemma scan_rows:
  assumes "rows \<noteq> []" "\<forall>cells \<in> set rows. cells \<noteq> [] \<and> (\<forall>c \<in> set cells. good_cell c)"
  shows "csv_scan Plain [] [] rs (join newline (map (\<lambda>cells. join comma (map fst cells)) rows))
           = rs @ map (map snd) rows"
  using assms
proof (induction rows arbitrary: rs)
  case Nil
  then show ?case by simp
next
  case (Cons cells rows)
  have g: "cells \<noteq> []" "\<forall>c \<in> set cells. good_cell c" using Cons.prems by simp_all
  show ?case
  proof (cases rows)
    case Nil
    then show ?thesis using scan_row_end [OF g, of "[]" rs] by simp
  next
    case (Cons cells' rows')
    then have "csv_scan Plain [] [] (rs @ [map snd cells])
                 (join newline (map (\<lambda>cells. join comma (map fst cells)) rows))
               = (rs @ [map snd cells]) @ map (map snd) rows"
      using Cons.prems by (intro Cons.IH) simp_all
    then show ?thesis
      using scan_row_newline [OF g, of "[]" rs] Cons by simp
  qed
qed

lemma good_csv_cell:
  assumes "\<And>n. v = JNum n \<Longrightarrow> n \<noteq> [] \<and> (\<forall>c \<in> set n. plain_char c)"
  shows "good_cell (csv_cell v, cell_text v)"
proof (cases "or_empty v")
  case JUndefined
  then show ?thesis by (cases v) (auto simp: or_empty_def split: if_splits)
next
  case JNull
  then show ?thesis by (cases v) (auto simp: or_empty_def split: if_splits)
next
  case (JStr s)
  then show ?thesis by (simp add: good_cell_def csv_cell_def cell_text_def)
next
  case (JNum n)
  then have "v = JNum n" by (cases v) (auto simp: or_empty_def split: if_splits)
  then have "n \<noteq> [] \<and> (\<forall>c \<in> set n. plain_char c)" by (rule assms)
  then show ?thesis using JNum by (simp add: good_cell_def csv_cell_def cell_text_def)
qed

lemma convertToCSV_rows:
  "convertToCSV data headers =
     join newline (map (\<lambda>cells. join comma (map fst cells))
       (map (\<lambda>h. (label h, label h)) headers
        # map (\<lambda>row. map (\<lambda>h. (csv_cell (row (key h)), cell_text (row (key h)))) headers) data))"
  by (simp add: convertToCSV_def Let_def comp_def)

lemma convertToCSV_parse:
  assumes "headers \<noteq> []"
    and "\<forall>h \<in> set headers. label h \<noteq> [] \<and> (\<forall>c \<in> set (label h). plain_char c)"
    and "\<forall>row \<in> set data. \<forall>h \<in> set headers. \<forall>n. row (key h) = JNum n
           \<longrightarrow> n \<noteq> [] \<and> (\<forall>c \<in> set n. plain_char c)"
  shows "csv_parse (convertToCSV data headers) =
           map label headers # map (\<lambda>row. map (\<lambda>h. cell_text (row (key h))) headers) data"
proof -
  let ?cells = "\<lambda>row. map (\<lambda>h. (csv_cell (row (key h)), cell_text (row (key h)))) headers"
  let ?rows = "map (\<lambda>h. (label h, label h)) headers # map ?cells data"
  have hd_good: "\<forall>c \<in> set (map (\<lambda>h. (label h, label h)) headers). good_cell c"
    using assms(2) by (auto simp: good_cell_def)
  have row_good: "\<forall>c \<in> set (?cells row). good_cell c" if "row \<in> set data" for row
  proof -
    have "good_cell (csv_cell (row (key h)), cell_text (row (key h)))" if "h \<in> set headers" for h
      using assms(3) \<open>row \<in> set data\<close> that by (intro good_csv_cell) blast
    then show ?thesis by simp
  qed
  have good: "\<forall>cells \<in> set ?rows. cells \<noteq> [] \<and> (\<forall>c \<in> set cells. good_cell c)"
    using assms(1) hd_good row_good by auto
  have "csv_parse (convertToCSV data headers) = [] @ map (map snd) ?rows"
    unfolding csv_parse_def convertToCSV_rows
    by (rule scan_rows [OF _ good]) simp
  then show ?thesis by (simp add: comp_def)
qed

lemma painPointHeaders_plain:
  "\<forall>h \<in> set painPointHeaders. label h \<noteq> [] \<and> (\<forall>c \<in> set (label h). plain_char c)"
  by (simp add: painPointHeaders_def plain_char_def comma_def newline_def dquote_def)

lemma cell_text_painPointRow:
  "map (\<lambda>h. cell_text (painPointRow pp (key h))) painPointHeaders =
     [pp_description pp, (case pp_severity pp of None \<Rightarrow> [] | Some s \<Rightarrow> severity_str s),
      rpp_stageName pp, rpp_stepAction pp]"
  by (simp add: painPointHeaders_def painPointRow_def cell_text_def or_empty_def of_opt_def
      split: option.splits)

lemma painPointRow_no_number: "painPointRow pp k \<noteq> JNum n"
  by (simp add: painPointRow_def of_opt_def split: option.splits)

lemma csv_cell_JStr: "csv_cell (JStr s) = dquote # double_quotes s @ [dquote]"
  by (simp add: csv_cell_def or_empty_def)

text \<open>
  Claim C4. A string value is exported between double quotes with every double quote
  inside it doubled, and the exported pain points read back: the reader returns the header
  row and, for every pain point of the report, its description exactly as it was (with
  any commas, double quotes and line feeds), its severity, stage and step.
\<close>

theorem csv_export_round_trip:
  "(\<forall>s. csv_cell (JStr s) = dquote # double_quotes s @ [dquote])
   \<and> (\<exists>csv. handleExportPainPoints (Some r) = Some (csv, ''pain-points-report.csv'')
         \<and> csv_parse csv =
             [''Description'', ''Severity'', ''Stage'', ''User Action'']
             # map (\<lambda>pp. [pp_description pp,
                            (case pp_severity pp of None \<Rightarrow> [] | Some s \<Rightarrow> severity_str s),
                            rpp_stageName pp, rpp_stepAction pp]) (painPoints r))"
proof -
  have ne: "painPointHeaders \<noteq> []" by (simp add: painPointHeaders_def)
  have labels: "map label painPointHeaders = [''Description'', ''Severity'', ''Stage'', ''User Action'']"
    by (simp add: painPointHeaders_def)
  have "csv_parse (convertToCSV (map painPointRow (painPoints r)) painPointHeaders) =
          [''Description'', ''Severity'', ''Stage'', ''User Action'']
          # map (\<lambda>pp. [pp_description pp,
                         (case pp_severity pp of None \<Rightarrow> [] | Some s \<Rightarrow> severity_str s),
                         rpp_stageName pp, rpp_stepAction pp]) (painPoints r)"
  proof -
    have nums: "\<forall>row \<in> set (map painPointRow (painPoints r)). \<forall>h \<in> set painPointHeaders.
                  \<forall>n. row (key h) = JNum n \<longrightarrow> n \<noteq> [] \<and> (\<forall>c \<in> set n. plain_char c)"
      by (simp add: painPointRow_no_number)
    show ?thesis
      unfolding convertToCSV_parse [OF ne painPointHeaders_plain nums] labels
      by (simp add: comp_def cell_text_painPointRow)
  qed
  then show ?thesis
    by (simp add: handleExportPainPoints_def csv_cell_JStr)
qed

text \<open>
  Claim C5, as the code has it. The header row is the labels joined by commas and every
  data row is its cells joined by commas, rows joined by line feeds. A string is written
  between double quotes; a number that is not falsy (not \<open>0\<close>, \<open>-0\<close> or \<^verbatim>\<open>NaN\<close>) is
  written as its string form with nothing added; an absent value (\<^verbatim>\<open>undefined\<close> or
  \<^verbatim>\<open>null\<close>) is first replaced by the empty string and so is written as two double
  quotes, not left blank. (The same replacement turns a falsy number into the empty
  string.)
\<close>

theorem convertToCSV_cells:
  "convertToCSV data headers =
     join newline (join comma (map label headers)
                   # map (\<lambda>row. join comma (map (\<lambda>h. csv_cell (row (key h))) headers)) data)
   \<and> (\<forall>s. csv_cell (JStr s) = dquote # double_quotes s @ [dquote])
   \<and> (\<forall>n. n \<noteq> ''0'' \<and> n \<noteq> ''NaN'' \<longrightarrow> csv_cell (JNum n) = n)
   \<and> csv_cell JUndefined = [dquote, dquote]
   \<and> csv_cell JNull = [dquote, dquote]"
proof -
  have rows: "convertToCSV data headers =
     join newline (join comma (map label headers)
                   # map (\<lambda>row. join comma (map (\<lambda>h. csv_cell (row (key h))) headers)) data)"
    by (simp add: convertToCSV_def)
  have num: "\<forall>n. n \<noteq> ''0'' \<and> n \<noteq> ''NaN'' \<longrightarrow> csv_cell (JNum n) = n"
    by (simp add: csv_cell_def or_empty_def falsy_number_def)
  have absent: "csv_cell JUndefined = [dquote, dquote]" "csv_cell JNull = [dquote, dquote]"
    by (simp_all add: csv_cell_def or_empty_def double_quotes_def)
  have str: "\<forall>s. csv_cell (JStr s) = dquote # double_quotes s @ [dquote]"
    by (simp add: csv_cell_JStr)
  from rows str num absent show ?thesis by simp
qed

theorem convertToCSV_cells_witness:
  "csv_cell (JNum ''42'') = ''42'' \<and> csv_cell (JNum ''1e+21'') = ''1e+21''
   \<and> csv_cell (JNum ''-0.5'') = ''-0.5''"
proof -
  note h = convertToCSV_cells [of "[]" "[]", THEN conjunct2, THEN conjunct2, THEN conjunct1,
      rule_format]
  have "csv_cell (JNum ''42'') = ''42''" by (rule h) simp
  moreover have "csv_cell (JNum ''1e+21'') = ''1e+21''" by (rule h) simp
  moreover have "csv_cell (JNum ''-0.5'') = ''-0.5''" by (rule h) simp
  ultimately show ?thesis by (intro conjI)
qed

theorem convertToCSV_absent_counterexample:
  "pp_severity ex_report_pain = None
   \<and> csv_cell (JNum ''0'') = [dquote, dquote]
   \<and> csv_cell (JNum ''NaN'') = [dquote, dquote]
   \<and> convertToCSV [painPointRow ex_report_pain] painPointHeaders =
       ''Description,Severity,Stage,User Action'' @ [newline]
       @ [dquote] @ ''errors'' @ [dquote] @ '','' @ [dquote, dquote] @ '',''
       @ [dquote] @ ''Onboarding'' @ [dquote] @ '','' @ [dquote] @ ''Query'' @ [dquote]
   \<and> convertToCSV [painPointRow ex_report_pain] painPointHeaders \<noteq>
       ''Description,Severity,Stage,User Action'' @ [newline]
       @ [dquote] @ ''errors'' @ [dquote] @ '','' @ '',''
       @ [dquote] @ ''Onboarding'' @ [dquote] @ '','' @ [dquote] @ ''Query'' @ [dquote]"
  by (simp add: convertToCSV_def painPointHeaders_def painPointRow_def ex_report_pain_def
      ex_pain_def PainPoint.defs ReportPainPoint.defs csv_cell_def or_empty_def of_opt_def
      double_quotes_def comma_def dquote_def newline_def falsy_number_def)

section \<open>Properties of the aggregator and of the mutation operations\<close>

lemma stopped_not_configured: "stopped u st (not_configured u)"
  by (simp add: stopped_def not_configured_def after_handler_def)

text \<open>
  Claim C2. Without a client, every mutation handler (persona save and delete, inline
  rename, add and delete of stage and step, save and delete of pain point, touchpoint and
  metric, persona toggle) shows the message that the database connection is not
  configured, sends no write, does not call the refetch, and leaves the component state,
  the stage tree and the persona list as they were; the save buttons of the three editors
  in front of the save handlers likewise end with a message and no write.
\<close>

theorem unconfigured_gateway_stops_mutations:
  "persona_handleSave None personaData pu = not_configured pu
   \<and> persona_handleDelete None confirmed i pu = not_configured pu
   \<and> handleSave None u = not_configured u
   \<and> addStage None stages u = not_configured u
   \<and> deleteStage None confirmed i u = not_configured u
   \<and> addStep None i u = not_configured u
   \<and> deleteStep None confirmed i u = not_configured u
   \<and> handleSavePainPoint None painPointData u = not_configured u
   \<and> handleDeletePainPoint None i u = not_configured u
   \<and> handleSaveTouchpoint None touchpointData u = not_configured u
   \<and> handleDeleteTouchpoint None i u = not_configured u
   \<and> handleSaveMetric None metricData u = not_configured u
   \<and> handleDeleteMetric None i u = not_configured u
   \<and> togglePersonaForStep None i persona u = not_configured u
   \<and> alerts (not_configured u) = [''Database connection is not configured.'']
   \<and> stopped u st (not_configured u)
   \<and> stopped pu st (not_configured pu)
   \<and> stopped u st (painPointEditor_handleSave None painPointData u)
   \<and> stopped u st (touchpointEditor_handleSave None touchpointData u)
   \<and> stopped u st (metricEditor_handleSave None metricData u)"
proof -
  have handlers:
    "persona_handleSave None personaData pu = not_configured pu"
    "persona_handleDelete None confirmed i pu = not_configured pu"
    "handleSave None u = not_configured u"
    "addStage None stages u = not_configured u"
    "deleteStage None confirmed i u = not_configured u"
    "addStep None i u = not_configured u"
    "deleteStep None confirmed i u = not_configured u"
    "handleSavePainPoint None painPointData u = not_configured u"
    "handleDeletePainPoint None i u = not_configured u"
    "handleSaveTouchpoint None touchpointData u = not_configured u"
    "handleDeleteTouchpoint None i u = not_configured u"
    "handleSaveMetric None metricData u = not_configured u"
    "handleDeleteMetric None i u = not_configured u"
    "togglePersonaForStep None i persona u = not_configured u"
    by (simp_all add: persona_handleSave_def persona_handleDelete_def handleSave_def addStage_def
        deleteStage_def addStep_def deleteStep_def handleSavePainPoint_def
        handleDeletePainPoint_def handleSaveTouchpoint_def handleDeleteTouchpoint_def
        handleSaveMetric_def handleDeleteMetric_def togglePersonaForStep_def)
  have msg: "alerts (not_configured u) = [''Database connection is not configured.'']"
    by (simp add: not_configured_def)
  have required: "stopped u st \<lparr>alerts = [m], writes = [], refetch = False, ui = u\<rparr>" for m
    by (simp add: stopped_def after_handler_def)
  have e1: "stopped u st (painPointEditor_handleSave None painPointData u)"
    using required stopped_not_configured [of u st]
    by (simp add: painPointEditor_handleSave_def handlers)
  have e2: "stopped u st (touchpointEditor_handleSave None touchpointData u)"
    using required stopped_not_configured [of u st]
    by (simp add: touchpointEditor_handleSave_def handlers)
  have e3: "stopped u st (metricEditor_handleSave None metricData u)"
    using required stopped_not_configured [of u st]
    by (simp add: metricEditor_handleSave_def handlers)
  show ?thesis
    using handlers msg stopped_not_configured [of u st] stopped_not_configured [of pu st] e1 e2 e3
    by simp
qed

text \<open>
  Claim C8, as the code has it. With a client, the aggregator logs the error of each
  fetch that has one, replaces each collection whose fetch delivered data (the stages
  reshaped) and leaves a collection whose fetch delivered none as it was before, each
  independently of the other fetch, and ends with the loading flag cleared; it returns
  for every input whose rows have the shape of the select (the steps of a stage and the
  persona links of a step are arrays). Only when the collection was empty before (as on
  the first load) is it empty after a failed fetch.
\<close>

theorem fetchJourneyData_independent:
  "\<exists>st' log. fetchJourneyData (Some client) st = (st', log)
     \<and> isLoading st' = False
     \<and> log = (case resp_error (select_personas client) of
                 None \<Rightarrow> [] | Some m \<Rightarrow> [''Error fetching personas: '' @ m])
             @ (case resp_error (select_stages client) of
                  None \<Rightarrow> [] | Some m \<Rightarrow> [''Error fetching journey stages: '' @ m])
     \<and> developerPersonas st' =
           (case resp_data (select_personas client) of
              None \<Rightarrow> developerPersonas st | Some d \<Rightarrow> d)
     \<and> journeyStages st' =
           (case resp_data (select_stages client) of
              None \<Rightarrow> journeyStages st | Some d \<Rightarrow> processedStages d)
     \<and> (resp_data (select_stages client) = None \<and> journeyStages st = []
           \<longrightarrow> journeyStages st' = [])
     \<and> (resp_data (select_personas client) = None \<and> developerPersonas st = []
           \<longrightarrow> developerPersonas st' = [])"
  by (simp add: fetchJourneyData_def Let_def split: option.splits)

theorem fetchJourneyData_independent_witness:
  "\<exists>st' log. fetchJourneyData (Some ex_client) (ex_app\<lparr>journeyStages := []\<rparr>) = (st', log)
     \<and> journeyStages st' = [] \<and> developerPersonas st' = [ex_persona ''a'']
     \<and> log = [''Error fetching journey stages: timeout'']"
  using fetchJourneyData_independent [of ex_client "ex_app\<lparr>journeyStages := []\<rparr>"]
  by (auto simp: ex_client_def ex_app_def)

theorem fetchJourneyData_stale_counterexample:
  "resp_error (select_stages ex_client) = Some ''timeout''
   \<and> journeyStages (fst (fetchJourneyData (Some ex_client) ex_app)) = [ex_stage]
   \<and> journeyStages (fst (fetchJourneyData (Some ex_client) ex_app)) \<noteq> []"
  by (simp add: fetchJourneyData_def Let_def ex_client_def ex_app_def)

lemma writes_awaited_write: "writes (awaited_write client w failed u_err u_ok) = [w]"
  by (simp add: awaited_write_def split: option.splits)

lemma isSelected_iff:
  "isSelected u persona \<longleftrightarrow>
     (\<exists>a. activeStepForPersona u = Some a \<and> p_id persona \<in> p_id ` set (personas a))"
  by (cases "activeStepForPersona u") (auto simp: isSelected_def list_ex_iff image_iff, metis)

text \<open>
  Claim C1, on the code. The first persona of the first example step is associated with
  that step, yet its chip's close button, pressed while no popover is open, sends an
  insert of the pair and no delete. And in the popover of the second step, whose snapshot
  does not hold persona \<open>a\<close>, changing the check box of \<open>a\<close> twice sends the same insert
  twice: the first run calls the refetch but leaves the snapshot as it was.
\<close>

theorem togglePersonaForStep_inserts_existing:
  "ex_persona ''a'' \<in> set (personas ex_step1)
   \<and> writes (chip_close_click (Some ex_client) ex_step1 (ex_persona ''a'') ex_ui)
       = [InsertPersonaStep ''a'' ''s1'']
   \<and> (let u = ex_ui\<lparr>activeStepForPersona := Some ex_step2\<rparr>;
           first = popover_checkbox_change (Some ex_client) (ex_persona ''a'') u;
           second = popover_checkbox_change (Some ex_client) (ex_persona ''a'') (ui first)
       in writes first = [InsertPersonaStep ''a'' ''s2''] \<and> refetch first
          \<and> writes second = [InsertPersonaStep ''a'' ''s2''])"
  by (simp add: chip_close_click_def popover_checkbox_change_def togglePersonaForStep_def
      isSelected_def awaited_write_def ex_client_def ex_ui_def ex_step1_def ex_step2_def
      ex_persona_def Let_def)

text \<open>
  Claim C9, as the code has it. With a client, the write of \<^verbatim>\<open>togglePersonaForStep\<close> is
  decided by the active step of the popover alone: a delete of \<open>(persona.id, stepId)\<close>
  when there is an active step whose persona list holds the persona's id, an insert of
  that pair otherwise. So with no active step the close button of a chip inserts the
  pair although the step has that persona; and an active step other than \<open>stepId\<close> gives
  the insert only if its own list lacks the persona.
\<close>

theorem togglePersonaForStep_decision:
  "writes (togglePersonaForStep (Some client) stepId persona u) =
     [if \<exists>a. activeStepForPersona u = Some a \<and> p_id persona \<in> p_id ` set (personas a)
      then DeletePersonaStep (p_id persona) stepId
      else InsertPersonaStep (p_id persona) stepId]
   \<and> (activeStepForPersona u = None \<longrightarrow>
        (\<forall>step p. p \<in> set (personas step) \<longrightarrow>
           writes (chip_close_click (Some client) step p u)
             = [InsertPersonaStep (p_id p) (step_id step)]))
   \<and> (\<forall>a. activeStepForPersona u = Some a \<and> p_id persona \<notin> p_id ` set (personas a) \<longrightarrow>
          writes (togglePersonaForStep (Some client) stepId persona u)
            = [InsertPersonaStep (p_id persona) stepId])
   \<and> (\<forall>a. activeStepForPersona u = Some a \<and> p_id persona \<in> p_id ` set (personas a) \<longrightarrow>
          writes (togglePersonaForStep (Some client) stepId persona u)
            = [DeletePersonaStep (p_id persona) stepId])"
proof -
  have w: "writes (togglePersonaForStep (Some client) s p v) =
     [if \<exists>a. activeStepForPersona v = Some a \<and> p_id p \<in> p_id ` set (personas a)
      then DeletePersonaStep (p_id p) s
      else InsertPersonaStep (p_id p) s]" for s p v
    by (simp add: togglePersonaForStep_def writes_awaited_write isSelected_iff)
  have chip: "activeStepForPersona u = None \<longrightarrow>
        (\<forall>step p. p \<in> set (personas step) \<longrightarrow>
           writes (chip_close_click (Some client) step p u)
             = [InsertPersonaStep (p_id p) (step_id step)])"
    by (simp add: chip_close_click_def w)
  have ins: "\<forall>a. activeStepForPersona u = Some a \<and> p_id persona \<notin> p_id ` set (personas a) \<longrightarrow>
          writes (togglePersonaForStep (Some client) stepId persona u)
            = [InsertPersonaStep (p_id persona) stepId]"
    unfolding w by auto
  have del: "\<forall>a. activeStepForPersona u = Some a \<and> p_id persona \<in> p_id ` set (personas a) \<longrightarrow>
          writes (togglePersonaForStep (Some client) stepId persona u)
            = [DeletePersonaStep (p_id persona) stepId]"
    unfolding w by auto
  from w [of stepId persona u] chip ins del show ?thesis by (intro conjI)
qed

theorem togglePersonaForStep_decision_witness:
  "ex_persona ''c'' \<in> set (personas ex_step2) \<and> activeStepForPersona ex_ui = None
   \<and> writes (chip_close_click (Some ex_client) ex_step2 (ex_persona ''c'') ex_ui)
       = [InsertPersonaStep ''c'' ''s2'']
   \<and> writes (togglePersonaForStep (Some ex_client) ''s1'' (ex_persona ''b'')
               (ex_ui\<lparr>activeStepForPersona := Some ex_step1\<rparr>))
       = [InsertPersonaStep ''b'' ''s1'']
   \<and> writes (togglePersonaForStep (Some ex_client) ''s1'' (ex_persona ''a'')
               (ex_ui\<lparr>activeStepForPersona := Some ex_step1\<rparr>))
       = [DeletePersonaStep ''a'' ''s1'']"
proof -
  have mem: "ex_persona ''c'' \<in> set (personas ex_step2)" by (simp add: ex_step2_def)
  have none: "activeStepForPersona ex_ui = None" by (simp add: ex_ui_def)
  have chip: "writes (chip_close_click (Some ex_client) ex_step2 (ex_persona ''c'') ex_ui)
       = [InsertPersonaStep ''c'' ''s2'']"
    using togglePersonaForStep_decision [of ex_client "''s1''" "ex_persona ''c''" ex_ui,
        THEN conjunct2, THEN conjunct1, rule_format, OF none mem]
    by (simp add: ex_persona_def ex_step2_def)
  have ins: "writes (togglePersonaForStep (Some ex_client) ''s1'' (ex_persona ''b'')
               (ex_ui\<lparr>activeStepForPersona := Some ex_step1\<rparr>))
       = [InsertPersonaStep ''b'' ''s1'']"
    using togglePersonaForStep_decision [of ex_client "''s1''" "ex_persona ''b''"
        "ex_ui\<lparr>activeStepForPersona := Some ex_step1\<rparr>",
        THEN conjunct2, THEN conjunct2, THEN conjunct1, rule_format, of ex_step1]
    by (simp add: ex_persona_def ex_step1_def)
  have del: "writes (togglePersonaForStep (Some ex_client) ''s1'' (ex_persona ''a'')
               (ex_ui\<lparr>activeStepForPersona := Some ex_step1\<rparr>))
       = [DeletePersonaStep ''a'' ''s1'']"
    using togglePersonaForStep_decision [of ex_client "''s1''" "ex_persona ''a''"
        "ex_ui\<lparr>activeStepForPersona := Some ex_step1\<rparr>",
        THEN conjunct2, THEN conjunct2, THEN conjunct2, rule_format, of ex_step1]
    by (simp add: ex_persona_def ex_step1_def)
  from mem none chip ins del show ?thesis by (intro conjI)
qed

theorem togglePersonaForStep_other_step_counterexample:
  "activeStepForPersona (ex_ui\<lparr>activeStepForPersona := Some ex_step2\<rparr>) = Some ex_step2
   \<and> step_id ex_step2 \<noteq> ''s1''
   \<and> writes (togglePersonaForStep (Some ex_client) ''s1'' (ex_persona ''c'')
               (ex_ui\<lparr>activeStepForPersona := Some ex_step2\<rparr>))
       = [DeletePersonaStep ''c'' ''s1'']
   \<and> writes (togglePersonaForStep (Some ex_client) ''s1'' (ex_persona ''c'')
               (ex_ui\<lparr>activeStepForPersona := Some ex_step2\<rparr>))
       \<noteq> [InsertPersonaStep ''c'' ''s1'']"
  by (simp add: togglePersonaForStep_def isSelected_def awaited_write_def ex_client_def
      ex_ui_def ex_step2_def ex_persona_def)

end
